theory Spec2Isabelle
  imports Main
begin

section \<open>Objects, requests and results\<close>

text \<open>
  \<open>time.Duration\<close> counts nanoseconds; \<open>time.Second\<close> is \<open>10^9\<close> of them.
  \<open>metav1.Time\<close> is kept as a number of seconds.
\<close>

type_synonym Duration = int
type_synonym Time = int

definition Second :: Duration where
  "Second = 1000000000"

text \<open>
  \<open>types.NamespacedName\<close> is the key of an object in the store. \<open>reconcile.Request\<close>
  embeds it, and \<open>metav1.ObjectMeta\<close> carries the same two fields, so the records below
  extend each other and \<open>Name\<close> reads the name of a request, of object metadata and of
  a CatalogSource alike.
\<close>

record NamespacedName =
  Namespace :: string
  Name :: string

type_synonym Request = NamespacedName

record ObjectMeta = NamespacedName +
  DeletionTimestamp :: "Time option"

text \<open>
  Modelled from the spec: the type \<open>olm.CatalogSource\<close> is declared in
  \<open>pkg/apis/olm/v1alpha1\<close>; its specification is an opaque structured document,
  kept here as a list of field/value pairs. The zero value of Go is the empty document.
\<close>

type_synonym CatalogSourceSpec = "(string \<times> string) list"

record CatalogSource = ObjectMeta +
  Spec :: CatalogSourceSpec

definition GetName :: "'a NamespacedName_scheme \<Rightarrow> string" where
  "GetName obj = Name obj"

definition zeroCatalogSource :: CatalogSource where
  "zeroCatalogSource =
     \<lparr>Namespace = [], Name = [], DeletionTimestamp = None, Spec = []\<rparr>"

record Result =
  Requeue :: bool
  RequeueAfter :: Duration

definition zeroResult :: Result where
  "zeroResult = \<lparr>Requeue = False, RequeueAfter = 0\<rparr>"

section \<open>Errors\<close>

text \<open>
  An error of the API machinery carries a message; \<open>errors.IsNotFound\<close> tells the
  not-found status from every other failure.
\<close>

datatype error = NotFound string | Failure string

fun IsNotFound :: "error \<Rightarrow> bool" where
  "IsNotFound (NotFound _) = True"
| "IsNotFound (Failure _) = False"

fun Error :: "error \<Rightarrow> string" where
  "Error (NotFound m) = m"
| "Error (Failure m) = m"

section \<open>Go maps\<close>

text \<open>Reading a Go map at a missing key yields the zero value of the value type.\<close>

definition catsrcAt :: "(string \<rightharpoonup> CatalogSource) \<Rightarrow> string \<Rightarrow> CatalogSource" where
  "catsrcAt m k = (case m k of Some v \<Rightarrow> v | None \<Rightarrow> zeroCatalogSource)"

definition boolAt :: "(string \<rightharpoonup> bool) \<Rightarrow> string \<Rightarrow> bool" where
  "boolAt m k = (case m k of Some v \<Rightarrow> v | None \<Rightarrow> False)"

section \<open>The client\<close>

text \<open>
  \<open>client.Client\<close> is an interface: the reconciler is given some implementation, over
  some store \<open>'st\<close>. \<open>Get\<close> reads (from the cache) and leaves the store as it is; the
  writing calls return the error, if any, and the store after the call.
\<close>

record 'st Client =
  Get :: "NamespacedName \<Rightarrow> 'st \<Rightarrow> error + CatalogSource"
  Create :: "CatalogSource \<Rightarrow> 'st \<Rightarrow> error option \<times> 'st"
  Delete :: "CatalogSource \<Rightarrow> 'st \<Rightarrow> error option \<times> 'st"
  Update :: "CatalogSource \<Rightarrow> 'st \<Rightarrow> error option \<times> 'st"

text \<open>
  The world a reconciliation runs in: the store, the calls made on the client so far,
  in order, and the lines written to the log.
\<close>

datatype Call =
  GetCall NamespacedName
| CreateCall CatalogSource
| DeleteCall CatalogSource
| UpdateCall CatalogSource

datatype Level = Info | Warning

record 'st World =
  store :: 'st
  calls :: "Call list"
  log :: "(Level \<times> string) list"

definition Infof :: "string \<Rightarrow> 'st World \<Rightarrow> 'st World" where
  "Infof msg w = w\<lparr>log := log w @ [(Info, msg)]\<rparr>"

definition Warnf :: "string \<Rightarrow> 'st World \<Rightarrow> 'st World" where
  "Warnf msg w = w\<lparr>log := log w @ [(Warning, msg)]\<rparr>"

definition client_Get ::
  "'st Client \<Rightarrow> NamespacedName \<Rightarrow> 'st World \<Rightarrow> (error + CatalogSource) \<times> 'st World" where
  "client_Get c key w = (Get c key (store w), w\<lparr>calls := calls w @ [GetCall key]\<rparr>)"

definition client_Create ::
  "'st Client \<Rightarrow> CatalogSource \<Rightarrow> 'st World \<Rightarrow> error option \<times> 'st World" where
  "client_Create c obj w =
     (case Create c obj (store w) of
        (r, s) \<Rightarrow> (r, w\<lparr>store := s, calls := calls w @ [CreateCall obj]\<rparr>))"

definition client_Delete ::
  "'st Client \<Rightarrow> CatalogSource \<Rightarrow> 'st World \<Rightarrow> error option \<times> 'st World" where
  "client_Delete c obj w =
     (case Delete c obj (store w) of
        (r, s) \<Rightarrow> (r, w\<lparr>store := s, calls := calls w @ [DeleteCall obj]\<rparr>))"

section \<open>The reconciler\<close>

text \<open>
  Modelled from the spec: \<open>defaults.AreCatsrcSpecsEqual\<close> lives in \<open>pkg/defaults\<close>;
  the spec has it compare the two specifications structurally.
\<close>

definition AreCatsrcSpecsEqual :: "CatalogSourceSpec \<Rightarrow> CatalogSourceSpec \<Rightarrow> bool" where
  "AreCatsrcSpecsEqual spec1 spec2 = (spec1 = spec2)"

definition createNewCatsrcInstance ::
  "'st Client \<Rightarrow> CatalogSource \<Rightarrow> 'st World \<Rightarrow> error option \<times> 'st World" where
  "createNewCatsrcInstance c catsrc w =
     (case client_Create c catsrc w of
        (Some err, w') \<Rightarrow>
          (Some err,
           Warnf (''Could not recreate default CatalogSource '' @ GetName catsrc
                  @ ''. Error: '' @ Error err) w')
      | (None, w') \<Rightarrow> (None, w'))"

text \<open>
  \<open>Reconcile\<close> takes what the source reads from globals as arguments: the registry
  \<open>defaultCatalogsources\<close> that \<open>defaults.GetGlobalDefinitions\<close> returns, and the map
  \<open>hub\<close> that \<open>operatorhub.GetSingleton().Get()\<close> returns.
\<close>

definition Reconcile ::
  "'st Client \<Rightarrow> (string \<rightharpoonup> CatalogSource) \<Rightarrow> (string \<rightharpoonup> bool) \<Rightarrow> Request \<Rightarrow> 'st World
     \<Rightarrow> (Result \<times> error option) \<times> 'st World" where
  "Reconcile c defaultCatalogsources hub request w =
     (let w1 = Infof (''Reconciling default CatalogSource '' @ Name request) w;
          defaultCatsrcDef = catsrcAt defaultCatalogsources (Name request)
      in case client_Get c request w1 of
           (Inl err, w2) \<Rightarrow>
             if IsNotFound err then
               (if \<not> boolAt hub (Name defaultCatsrcDef)
                then ((zeroResult, None), snd (createNewCatsrcInstance c defaultCatsrcDef w2))
                else ((zeroResult, None), w2))
             else ((\<lparr>Requeue = True, RequeueAfter = Second * 5\<rparr>, Some err), w2)
         | (Inr instance, w2) \<Rightarrow>
             if DeletionTimestamp instance \<noteq> None then
               ((\<lparr>Requeue = True, RequeueAfter = Second * 5\<rparr>, None), w2)
             else if \<not> AreCatsrcSpecsEqual (Spec defaultCatsrcDef) (Spec instance) then
               (case client_Delete c instance w2 of
                  (Some err, w3) \<Rightarrow>
                    ((\<lparr>Requeue = True, RequeueAfter = Second * 5\<rparr>, None),
                     Warnf (''Could not set default CatalogSource '' @ GetName defaultCatsrcDef
                            @ '''s spec back to desired default state. ''
                            @ ''Error in deleting updated CatalogSource: '' @ Error err) w3)
                | (None, w3) \<Rightarrow>
                    ((\<lparr>Requeue = True, RequeueAfter = Second * 5\<rparr>, None), w3))
             else ((zeroResult, None), w2))"

text \<open>The calls made on the client between two worlds, and those of them that write.\<close>

definition issued :: "'st World \<Rightarrow> 'st World \<Rightarrow> Call list" where
  "issued w w' = drop (length (calls w)) (calls w')"

fun isCreate :: "Call \<Rightarrow> bool" where
  "isCreate (CreateCall _) = True"
| "isCreate _ = False"

fun isDelete :: "Call \<Rightarrow> bool" where
  "isDelete (DeleteCall _) = True"
| "isDelete _ = False"

fun isMutation :: "Call \<Rightarrow> bool" where
  "isMutation (GetCall _) = False"
| "isMutation _ = True"

section \<open>The event filter\<close>

text \<open>
  The events of \<open>controller-runtime\<close>. A create and a generic event carry the metadata
  and the object; a delete event adds \<open>DeleteStateUnknown\<close>; an update event carries
  both the old and the new. The watch source fills the metadata in before it hands an
  event to the predicate.
\<close>

record ObjectEvent =
  Meta :: ObjectMeta
  Object :: CatalogSource

type_synonym CreateEvent = ObjectEvent
type_synonym GenericEvent = ObjectEvent

record DeleteEvent = ObjectEvent +
  DeleteStateUnknown :: bool

record UpdateEvent =
  MetaOld :: ObjectMeta
  ObjectOld :: CatalogSource
  MetaNew :: ObjectMeta
  ObjectNew :: CatalogSource

definition CreateFunc :: "CreateEvent \<Rightarrow> bool" where
  "CreateFunc e = False"

definition UpdateFunc :: "(string \<rightharpoonup> CatalogSource) \<Rightarrow> UpdateEvent \<Rightarrow> bool" where
  "UpdateFunc defaultCatalogsources e =
     (case defaultCatalogsources (GetName (MetaOld e)) of
        Some _ \<Rightarrow> True
      | None \<Rightarrow> False)"

definition DeleteFunc :: "(string \<rightharpoonup> CatalogSource) \<Rightarrow> DeleteEvent \<Rightarrow> bool" where
  "DeleteFunc defaultCatalogsources e =
     (case defaultCatalogsources (GetName (Meta e)) of
        Some _ \<Rightarrow> (if DeleteStateUnknown e then False else True)
      | None \<Rightarrow> False)"

definition GenericFunc :: "(string \<rightharpoonup> CatalogSource) \<Rightarrow> GenericEvent \<Rightarrow> bool" where
  "GenericFunc defaultCatalogsources e =
     (case defaultCatalogsources (GetName (Meta e)) of
        Some _ \<Rightarrow> True
      | None \<Rightarrow> False)"

text \<open>\<open>predicate.Funcs\<close> sends each kind of event to its function.\<close>

datatype Event =
  OnCreate CreateEvent
| OnUpdate UpdateEvent
| OnDelete DeleteEvent
| OnGeneric GenericEvent

fun pred :: "(string \<rightharpoonup> CatalogSource) \<Rightarrow> Event \<Rightarrow> bool" where
  "pred defaultCatalogsources (OnCreate e) = CreateFunc e"
| "pred defaultCatalogsources (OnUpdate e) = UpdateFunc defaultCatalogsources e"
| "pred defaultCatalogsources (OnDelete e) = DeleteFunc defaultCatalogsources e"
| "pred defaultCatalogsources (OnGeneric e) = GenericFunc defaultCatalogsources e"

section \<open>Leadership callbacks\<close>

text \<open>
  What \<open>main\<close> holds while the election runs: whether \<open>stopCh\<close>, the done channel of
  the signal context, is closed; whether \<open>leaderCtx\<close> is cancelled; whether
  \<open>mgr.Start(stopCh)\<close> has been called; and the lines of \<open>logger\<close>. The manager,
  once started, runs until \<open>stopCh\<close> is closed.
\<close>

record Process =
  stopChClosed :: bool
  leaderCtxDone :: bool
  mgrStarted :: bool
  logger :: "(Level \<times> string) list"

definition managerRunning :: "Process \<Rightarrow> bool" where
  "managerRunning p = (mgrStarted p \<and> \<not> stopChClosed p)"

definition leaderCancel :: "Process \<Rightarrow> Process" where
  "leaderCancel p = p\<lparr>leaderCtxDone := True\<rparr>"

definition OnStoppedLeading :: "string \<Rightarrow> Process \<Rightarrow> Process" where
  "OnStoppedLeading ident p =
     p\<lparr>logger := logger p @ [(Warning, ''leader election lost for '' @ ident @ '' identity'')]\<rparr>"

section \<open>An in-memory client\<close>

text \<open>
  An implementation of the client interface to run the reconciler on: the objects by
  key, and the error, if any, that each kind of call is set to fail with.
\<close>

record MemStore =
  objects :: "NamespacedName \<rightharpoonup> CatalogSource"
  getErr :: "error option"
  createErr :: "error option"
  deleteErr :: "error option"

definition keyOf :: "CatalogSource \<Rightarrow> NamespacedName" where
  "keyOf obj = \<lparr>Namespace = Namespace obj, Name = Name obj\<rparr>"

definition memGet :: "NamespacedName \<Rightarrow> MemStore \<Rightarrow> error + CatalogSource" where
  "memGet key s =
     (case getErr s of
        Some err \<Rightarrow> Inl err
      | None \<Rightarrow>
          (case objects s key of
             None \<Rightarrow> Inl (NotFound (''catalogsource '' @ Name key @ '' not found''))
           | Some obj \<Rightarrow> Inr obj))"

definition memCreate :: "CatalogSource \<Rightarrow> MemStore \<Rightarrow> error option \<times> MemStore" where
  "memCreate obj s =
     (case createErr s of
        Some err \<Rightarrow> (Some err, s)
      | None \<Rightarrow> (None, s\<lparr>objects := (objects s)(keyOf obj \<mapsto> obj)\<rparr>))"

definition memDelete :: "CatalogSource \<Rightarrow> MemStore \<Rightarrow> error option \<times> MemStore" where
  "memDelete obj s =
     (case deleteErr s of
        Some err \<Rightarrow> (Some err, s)
      | None \<Rightarrow> (None, s\<lparr>objects := (objects s)(keyOf obj := None)\<rparr>))"

definition memUpdate :: "CatalogSource \<Rightarrow> MemStore \<Rightarrow> error option \<times> MemStore" where
  "memUpdate obj s = (None, s\<lparr>objects := (objects s)(keyOf obj \<mapsto> obj)\<rparr>)"

definition memClient :: "MemStore Client" where
  "memClient = \<lparr>Get = memGet, Create = memCreate, Delete = memDelete, Update = memUpdate\<rparr>"

definition newWorld :: "'st \<Rightarrow> 'st World" where
  "newWorld s = \<lparr>store = s, calls = [], log = []\<rparr>"

text \<open>A registry of one default, and stores to meet it with.\<close>

definition catsrcA :: CatalogSource where
  "catsrcA = \<lparr>Namespace = ''openshift-marketplace'', Name = ''community-operators'',
     DeletionTimestamp = None, Spec = [(''sourceType'', ''grpc''), (''image'', ''index:v1'')]\<rparr>"

definition registryA :: "string \<rightharpoonup> CatalogSource" where
  "registryA = Map.empty(''community-operators'' \<mapsto> catsrcA)"

definition requestA :: Request where
  "requestA = \<lparr>Namespace = ''openshift-marketplace'', Name = ''community-operators''\<rparr>"

definition storeOf :: "CatalogSource list \<Rightarrow> MemStore" where
  "storeOf objs =
     \<lparr>objects = map_of (map (\<lambda>obj. (keyOf obj, obj)) objs),
      getErr = None, createErr = None, deleteErr = None\<rparr>"

section \<open>Stores and events to run the code on\<close>

definition driftedA :: CatalogSource where
  "driftedA = catsrcA\<lparr>Spec := [(''sourceType'', ''grpc''), (''image'', ''index:edited'')]\<rparr>"

definition deletingA :: CatalogSource where
  "deletingA = catsrcA\<lparr>DeletionTimestamp := Some 1600000000\<rparr>"

definition failingDelete :: "MemStore \<Rightarrow> MemStore" where
  "failingDelete s = s\<lparr>deleteErr := Some (Failure ''conflict'')\<rparr>"

definition failingCreate :: "MemStore \<Rightarrow> MemStore" where
  "failingCreate s = s\<lparr>createErr := Some (Failure ''forbidden'')\<rparr>"

definition failingGet :: "MemStore \<Rightarrow> MemStore" where
  "failingGet s = s\<lparr>getErr := Some (Failure ''timeout'')\<rparr>"

definition strayB :: CatalogSource where
  "strayB = \<lparr>Namespace = ''openshift-marketplace'', Name = ''my-catalog'',
     DeletionTimestamp = None, Spec = [(''sourceType'', ''grpc''), (''image'', ''mine:v3'')]\<rparr>"

definition requestB :: Request where
  "requestB = \<lparr>Namespace = ''openshift-marketplace'', Name = ''my-catalog''\<rparr>"

definition metaOf :: "CatalogSource \<Rightarrow> ObjectMeta" where
  "metaOf obj =
     \<lparr>Namespace = Namespace obj, Name = Name obj, DeletionTimestamp = DeletionTimestamp obj\<rparr>"

definition eventOf :: "CatalogSource \<Rightarrow> ObjectEvent" where
  "eventOf obj = \<lparr>Meta = metaOf obj, Object = obj\<rparr>"

definition deleteOf :: "CatalogSource \<Rightarrow> bool \<Rightarrow> DeleteEvent" where
  "deleteOf obj unknown = \<lparr>Meta = metaOf obj, Object = obj, DeleteStateUnknown = unknown\<rparr>"

definition updateOf :: "CatalogSource \<Rightarrow> CatalogSource \<Rightarrow> UpdateEvent" where
  "updateOf old new =
     \<lparr>MetaOld = metaOf old, ObjectOld = old, MetaNew = metaOf new, ObjectNew = new\<rparr>"

definition leading :: Process where
  "leading = \<lparr>stopChClosed = False, leaderCtxDone = False, mgrStarted = True, logger = []\<rparr>"

section \<open>Properties of the reconciler\<close>

lemmas Reconcile_defs = Reconcile_def client_Get_def client_Delete_def client_Create_def
  createNewCatsrcInstance_def Infof_def Warnf_def Let_def issued_def

lemmas mem_defs = memClient_def memGet_def memCreate_def memDelete_def storeOf_def keyOf_def
  newWorld_def catsrcA_def registryA_def requestA_def catsrcAt_def boolAt_def
  AreCatsrcSpecsEqual_def zeroCatalogSource_def zeroResult_def GetName_def Second_def
  driftedA_def deletingA_def failingDelete_def failingCreate_def failingGet_def
  strayB_def requestB_def

lemmas event_defs = CreateFunc_def UpdateFunc_def DeleteFunc_def GenericFunc_def GetName_def
  metaOf_def eventOf_def deleteOf_def updateOf_def catsrcA_def registryA_def strayB_def

text \<open>
  C1. When the fetch returns an object that has no deletion timestamp and whose
  specification differs from the one the registry lookup yields, \<open>Reconcile\<close> makes
  exactly two calls on the client, the fetch and one delete of the fetched object (no
  create, no update), leaves the store as that delete leaves it, and returns a requeue
  after 5 seconds with no error, whatever the delete returned.
\<close>

theorem Reconcile_drift_deletes_and_requeues:
  assumes "Get c request (store w) = Inr instance"
    and "DeletionTimestamp instance = None"
    and "\<not> AreCatsrcSpecsEqual (Spec (catsrcAt reg (Name request))) (Spec instance)"
  shows "fst (Reconcile c reg hub request w)
           = (\<lparr>Requeue = True, RequeueAfter = 5 * Second\<rparr>, None)
    \<and> issued w (snd (Reconcile c reg hub request w)) = [GetCall request, DeleteCall instance]
    \<and> store (snd (Reconcile c reg hub request w)) = snd (Delete c instance (store w))"
  using assms by (auto simp add: Reconcile_defs split: prod.splits option.splits)

theorem Reconcile_drift_deletes_and_requeues_witness:
  "Get memClient requestA (store (newWorld (storeOf [driftedA]))) = Inr driftedA
   \<and> DeletionTimestamp driftedA = None
   \<and> \<not> AreCatsrcSpecsEqual (Spec (catsrcAt registryA (Name requestA))) (Spec driftedA)
   \<and> fst (Delete memClient driftedA (storeOf [driftedA])) = None
   \<and> Reconcile memClient registryA Map.empty requestA (newWorld (storeOf [driftedA]))
       = ((\<lparr>Requeue = True, RequeueAfter = 5000000000\<rparr>, None),
          \<lparr>store = storeOf [],
           calls = [GetCall requestA, DeleteCall driftedA],
           log = [(Info, ''Reconciling default CatalogSource community-operators'')]\<rparr>)
   \<and> Get memClient requestA (store (newWorld (failingDelete (storeOf [driftedA]))))
       = Inr driftedA
   \<and> fst (Delete memClient driftedA (failingDelete (storeOf [driftedA])))
       = Some (Failure ''conflict'')
   \<and> fst (Reconcile memClient registryA Map.empty requestA
        (newWorld (failingDelete (storeOf [driftedA]))))
       = (\<lparr>Requeue = True, RequeueAfter = 5000000000\<rparr>, None)
   \<and> calls (snd (Reconcile memClient registryA Map.empty requestA
        (newWorld (failingDelete (storeOf [driftedA])))))
       = [GetCall requestA, DeleteCall driftedA]
   \<and> store (snd (Reconcile memClient registryA Map.empty requestA
        (newWorld (failingDelete (storeOf [driftedA])))))
       = failingDelete (storeOf [driftedA])"
  using Reconcile_drift_deletes_and_requeues
          [of memClient requestA "newWorld (storeOf [driftedA])" driftedA registryA Map.empty]
        Reconcile_drift_deletes_and_requeues
          [of memClient requestA "newWorld (failingDelete (storeOf [driftedA]))" driftedA
              registryA Map.empty]
  by (simp add: mem_defs Reconcile_defs)

text \<open>
  C2. When the fetch returns not-found and the flag of the OperatorHub singleton for the
  name of the default's definition is false, \<open>Reconcile\<close> calls create with that
  definition, once, and returns the empty result with no error, whatever the create
  returned.
\<close>

theorem Reconcile_not_found_creates:
  assumes "Get c request (store w) = Inl err"
    and "IsNotFound err"
    and "\<not> boolAt hub (Name (catsrcAt reg (Name request)))"
  shows "fst (Reconcile c reg hub request w) = (\<lparr>Requeue = False, RequeueAfter = 0\<rparr>, None)
    \<and> issued w (snd (Reconcile c reg hub request w))
          = [GetCall request, CreateCall (catsrcAt reg (Name request))]
    \<and> store (snd (Reconcile c reg hub request w))
          = snd (Create c (catsrcAt reg (Name request)) (store w))"
  using assms
  by (auto simp add: Reconcile_defs zeroResult_def split: prod.splits option.splits)

theorem Reconcile_not_found_creates_witness:
  "Get memClient requestA (store (newWorld (storeOf [])))
       = Inl (NotFound ''catalogsource community-operators not found'')
   \<and> IsNotFound (NotFound ''catalogsource community-operators not found'')
   \<and> \<not> boolAt Map.empty (Name (catsrcAt registryA (Name requestA)))
   \<and> Reconcile memClient registryA Map.empty requestA (newWorld (storeOf []))
       = ((\<lparr>Requeue = False, RequeueAfter = 0\<rparr>, None),
          \<lparr>store = storeOf [catsrcA],
           calls = [GetCall requestA, CreateCall catsrcA],
           log = [(Info, ''Reconciling default CatalogSource community-operators'')]\<rparr>)
   \<and> fst (Create memClient catsrcA (failingCreate (storeOf [])))
       = Some (Failure ''forbidden'')
   \<and> fst (Reconcile memClient registryA Map.empty requestA
        (newWorld (failingCreate (storeOf []))))
       = (\<lparr>Requeue = False, RequeueAfter = 0\<rparr>, None)
   \<and> calls (snd (Reconcile memClient registryA Map.empty requestA
        (newWorld (failingCreate (storeOf [])))))
       = [GetCall requestA, CreateCall catsrcA]
   \<and> store (snd (Reconcile memClient registryA Map.empty requestA
        (newWorld (failingCreate (storeOf [])))))
       = failingCreate (storeOf [])"
  using Reconcile_not_found_creates
          [of memClient requestA "newWorld (storeOf [])"
              "NotFound ''catalogsource community-operators not found''" Map.empty registryA]
        Reconcile_not_found_creates
          [of memClient requestA "newWorld (failingCreate (storeOf []))"
              "NotFound ''catalogsource community-operators not found''" Map.empty registryA]
  by (simp add: mem_defs Reconcile_defs)

text \<open>
  C3. When the fetch returns an object with a deletion timestamp, \<open>Reconcile\<close> makes no
  call on the client but the fetch, leaves the store as it is, and returns a requeue
  after 5 seconds with no error.
\<close>

theorem Reconcile_pending_deletion_requeues:
  assumes "Get c request (store w) = Inr instance"
    and "DeletionTimestamp instance \<noteq> None"
  shows "fst (Reconcile c reg hub request w)
           = (\<lparr>Requeue = True, RequeueAfter = 5 * Second\<rparr>, None)
    \<and> fst (fst (Reconcile c reg hub request w)) \<noteq> zeroResult
    \<and> issued w (snd (Reconcile c reg hub request w)) = [GetCall request]
    \<and> store (snd (Reconcile c reg hub request w)) = store w"
  using assms by (auto simp add: Reconcile_defs zeroResult_def)

theorem Reconcile_pending_deletion_requeues_witness:
  "Get memClient requestA (store (newWorld (storeOf [deletingA]))) = Inr deletingA
   \<and> DeletionTimestamp deletingA \<noteq> None
   \<and> Reconcile memClient registryA Map.empty requestA (newWorld (storeOf [deletingA]))
       = ((\<lparr>Requeue = True, RequeueAfter = 5000000000\<rparr>, None),
          \<lparr>store = storeOf [deletingA],
           calls = [GetCall requestA],
           log = [(Info, ''Reconciling default CatalogSource community-operators'')]\<rparr>)"
  using Reconcile_pending_deletion_requeues
          [of memClient requestA "newWorld (storeOf [deletingA])" deletingA registryA Map.empty]
  by (simp add: mem_defs Reconcile_defs)

text \<open>
  One run on a store that already holds the desired object, and the shapes the calls of
  a run can take.
\<close>

lemma Reconcile_equal_step:
  assumes "Get c request (store w) = Inr instance"
    and "DeletionTimestamp instance = None"
    and "AreCatsrcSpecsEqual (Spec (catsrcAt reg (Name request))) (Spec instance)"
  shows "fst (Reconcile c reg hub request w) = (\<lparr>Requeue = False, RequeueAfter = 0\<rparr>, None)"
    and "issued w (snd (Reconcile c reg hub request w)) = [GetCall request]"
    and "store (snd (Reconcile c reg hub request w)) = store w"
  using assms by (simp_all add: Reconcile_defs zeroResult_def)

lemma Reconcile_issued_cases:
  "issued w (snd (Reconcile c reg hub request w)) = [GetCall request]
   \<or> issued w (snd (Reconcile c reg hub request w))
        = [GetCall request, CreateCall (catsrcAt reg (Name request))]
   \<or> (\<exists>instance. Get c request (store w) = Inr instance
        \<and> issued w (snd (Reconcile c reg hub request w))
            = [GetCall request, DeleteCall instance])"
  by (auto simp add: Reconcile_defs split: prod.splits option.splits sum.splits)

text \<open>
  C6. \<open>Reconcile\<close> returns an error exactly when the fetch fails with an error that is
  not not-found; it then returns that error with a requeue after 5 seconds. The client
  is arbitrary, so a create or a delete that fails never shows in the returned error.
\<close>

theorem Reconcile_error_iff_fetch_failure:
  "(snd (fst (Reconcile c reg hub request w)) \<noteq> None)
      = (\<exists>err. Get c request (store w) = Inl err \<and> \<not> IsNotFound err)
   \<and> (\<forall>err. Get c request (store w) = Inl err \<and> \<not> IsNotFound err \<longrightarrow>
          fst (Reconcile c reg hub request w)
            = (\<lparr>Requeue = True, RequeueAfter = 5 * Second\<rparr>, Some err))"
  by (auto simp add: Reconcile_defs split: prod.splits option.splits sum.splits)

theorem Reconcile_error_iff_fetch_failure_witness:
  "Get memClient requestA (store (newWorld (failingGet (storeOf [catsrcA]))))
      = Inl (Failure ''timeout'')
   \<and> \<not> IsNotFound (Failure ''timeout'')
   \<and> Reconcile memClient registryA Map.empty requestA (newWorld (failingGet (storeOf [catsrcA])))
      = ((\<lparr>Requeue = True, RequeueAfter = 5000000000\<rparr>, Some (Failure ''timeout'')),
         \<lparr>store = failingGet (storeOf [catsrcA]), calls = [GetCall requestA],
          log = [(Info, ''Reconciling default CatalogSource community-operators'')]\<rparr>)
   \<and> fst (Delete memClient driftedA (failingDelete (storeOf [driftedA])))
      = Some (Failure ''conflict'')
   \<and> snd (fst (Reconcile memClient registryA Map.empty requestA
        (newWorld (failingDelete (storeOf [driftedA]))))) = None
   \<and> fst (Create memClient catsrcA (failingCreate (storeOf []))) = Some (Failure ''forbidden'')
   \<and> snd (fst (Reconcile memClient registryA Map.empty requestA
        (newWorld (failingCreate (storeOf []))))) = None"
  using Reconcile_error_iff_fetch_failure
          [of memClient registryA Map.empty requestA "newWorld (failingGet (storeOf [catsrcA]))"]
        Reconcile_error_iff_fetch_failure
          [of memClient registryA Map.empty requestA
              "newWorld (failingDelete (storeOf [driftedA]))"]
        Reconcile_error_iff_fetch_failure
          [of memClient registryA Map.empty requestA "newWorld (failingCreate (storeOf []))"]
  by (simp add: mem_defs Reconcile_defs)

text \<open>
  C7. When the fetch returns an object that has no deletion timestamp and whose
  specification equals the one the registry lookup yields, \<open>Reconcile\<close> makes no call on
  the client but the fetch, leaves the store as it is and returns the empty result with
  no error; run again on the world it left, it does the same.
\<close>

theorem Reconcile_equal_is_idempotent:
  assumes "Get c request (store w) = Inr instance"
    and "DeletionTimestamp instance = None"
    and "AreCatsrcSpecsEqual (Spec (catsrcAt reg (Name request))) (Spec instance)"
  shows "fst (Reconcile c reg hub request w) = (\<lparr>Requeue = False, RequeueAfter = 0\<rparr>, None)
    \<and> issued w (snd (Reconcile c reg hub request w)) = [GetCall request]
    \<and> store (snd (Reconcile c reg hub request w)) = store w
    \<and> fst (Reconcile c reg hub request (snd (Reconcile c reg hub request w)))
         = (\<lparr>Requeue = False, RequeueAfter = 0\<rparr>, None)
    \<and> issued (snd (Reconcile c reg hub request w))
         (snd (Reconcile c reg hub request (snd (Reconcile c reg hub request w))))
         = [GetCall request]
    \<and> store (snd (Reconcile c reg hub request (snd (Reconcile c reg hub request w))))
         = store w"
proof -
  let ?w1 = "snd (Reconcile c reg hub request w)"
  note first = Reconcile_equal_step [OF assms, of hub]
  from first(3) assms(1) have again: "Get c request (store ?w1) = Inr instance"
    by simp
  note second = Reconcile_equal_step [OF again assms(2) assms(3), of hub]
  from first second show ?thesis
    by simp
qed

theorem Reconcile_equal_is_idempotent_witness:
  "Get memClient requestA (store (newWorld (storeOf [catsrcA]))) = Inr catsrcA
   \<and> DeletionTimestamp catsrcA = None
   \<and> AreCatsrcSpecsEqual (Spec (catsrcAt registryA (Name requestA))) (Spec catsrcA)
   \<and> fst (Reconcile memClient registryA Map.empty requestA (newWorld (storeOf [catsrcA])))
       = (\<lparr>Requeue = False, RequeueAfter = 0\<rparr>, None)
   \<and> store (snd (Reconcile memClient registryA Map.empty requestA
        (snd (Reconcile memClient registryA Map.empty requestA (newWorld (storeOf [catsrcA]))))))
       = storeOf [catsrcA]
   \<and> calls (snd (Reconcile memClient registryA Map.empty requestA
        (snd (Reconcile memClient registryA Map.empty requestA (newWorld (storeOf [catsrcA]))))))
       = [GetCall requestA, GetCall requestA]"
  using Reconcile_equal_is_idempotent
          [of memClient requestA "newWorld (storeOf [catsrcA])" catsrcA registryA Map.empty]
  by (simp add: mem_defs Reconcile_defs)

text \<open>
  C9. Whatever the fetch returns, one run of \<open>Reconcile\<close> makes at most one create
  call, at most one delete call, and at most one writing call in all.
\<close>

theorem Reconcile_at_most_one_mutation:
  "length (filter isCreate (issued w (snd (Reconcile c reg hub request w)))) \<le> 1
   \<and> length (filter isDelete (issued w (snd (Reconcile c reg hub request w)))) \<le> 1
   \<and> length (filter isMutation (issued w (snd (Reconcile c reg hub request w)))) \<le> 1"
  using Reconcile_issued_cases [of w c reg hub request] by auto


section \<open>Properties of the event filter\<close>

text \<open>
  C4. The filter returns false for every create event, for every delete event whose
  \<open>DeleteStateUnknown\<close> is set, and for every update, delete and generic event whose
  name is not a key of the registry. The name is the one the filter reads: that of the
  old metadata for an update event, that of the metadata for the others.
\<close>

theorem pred_rejects:
  "\<not> pred reg (OnCreate ce)
   \<and> (DeleteStateUnknown de \<longrightarrow> \<not> pred reg (OnDelete de))
   \<and> (GetName (MetaOld ue) \<notin> dom reg \<longrightarrow> \<not> pred reg (OnUpdate ue))
   \<and> (GetName (Meta de) \<notin> dom reg \<longrightarrow> \<not> pred reg (OnDelete de))
   \<and> (GetName (Meta ge) \<notin> dom reg \<longrightarrow> \<not> pred reg (OnGeneric ge))"
  by (auto simp add: CreateFunc_def UpdateFunc_def DeleteFunc_def GenericFunc_def
           split: option.splits)

theorem pred_rejects_witness:
  "\<not> pred registryA (OnCreate (eventOf catsrcA))
   \<and> DeleteStateUnknown (deleteOf catsrcA True)
   \<and> GetName (Meta (deleteOf catsrcA True)) \<in> dom registryA
   \<and> \<not> pred registryA (OnDelete (deleteOf catsrcA True))
   \<and> GetName (MetaOld (updateOf strayB strayB)) \<notin> dom registryA
   \<and> \<not> pred registryA (OnUpdate (updateOf strayB strayB))
   \<and> GetName (Meta (deleteOf strayB False)) \<notin> dom registryA
   \<and> \<not> pred registryA (OnDelete (deleteOf strayB False))
   \<and> GetName (Meta (eventOf strayB)) \<notin> dom registryA
   \<and> \<not> pred registryA (OnGeneric (eventOf strayB))"
  using pred_rejects [of registryA "eventOf catsrcA" "deleteOf catsrcA True"
                         "updateOf strayB strayB" "eventOf strayB"]
        pred_rejects [of registryA "eventOf catsrcA" "deleteOf strayB False"
                         "updateOf strayB strayB" "eventOf strayB"]
  by (simp add: event_defs)

text \<open>
  C10. On an update event the filter returns true exactly when the name of the old
  metadata is a key of the registry; two update events with the same old name get the
  same answer, whatever their new metadata and objects are.
\<close>

theorem pred_update_reads_old_name:
  "pred reg (OnUpdate e) = (GetName (MetaOld e) \<in> dom reg)
   \<and> (GetName (MetaOld e) = GetName (MetaOld e') \<longrightarrow>
        pred reg (OnUpdate e) = pred reg (OnUpdate e'))"
  by (auto simp add: UpdateFunc_def split: option.splits)

theorem pred_update_reads_old_name_witness:
  "GetName (MetaOld (updateOf catsrcA strayB)) = GetName (MetaOld (updateOf catsrcA driftedA))
   \<and> GetName (MetaNew (updateOf catsrcA strayB)) \<notin> dom registryA
   \<and> ObjectNew (updateOf catsrcA strayB) \<noteq> ObjectNew (updateOf catsrcA driftedA)
   \<and> pred registryA (OnUpdate (updateOf catsrcA strayB))
   \<and> pred registryA (OnUpdate (updateOf catsrcA driftedA))
   \<and> GetName (MetaNew (updateOf strayB catsrcA)) \<in> dom registryA
   \<and> \<not> pred registryA (OnUpdate (updateOf strayB catsrcA))"
  using pred_update_reads_old_name [of registryA "updateOf catsrcA strayB"
                                       "updateOf catsrcA driftedA"]
        pred_update_reads_old_name [of registryA "updateOf strayB catsrcA"
                                       "updateOf strayB catsrcA"]
  by (simp add: event_defs driftedA_def)

section \<open>Losing the leadership\<close>

text \<open>
  C5. \<open>OnStoppedLeading\<close> writes a warning and nothing else: in a process that is
  leading, with the manager started and no signal received, the manager is still
  running when the callback returns, and \<open>leaderCtx\<close> is not cancelled.
\<close>

theorem OnStoppedLeading_leaves_manager_running:
  "managerRunning leading
   \<and> managerRunning (OnStoppedLeading ''marketplace-operator-0'' leading)
   \<and> \<not> leaderCtxDone (OnStoppedLeading ''marketplace-operator-0'' leading)
   \<and> OnStoppedLeading ''marketplace-operator-0'' leading
       = leading\<lparr>logger :=
           [(Warning, ''leader election lost for marketplace-operator-0 identity'')]\<rparr>"
  by (simp add: managerRunning_def OnStoppedLeading_def leading_def)

end
